theory Spec2Isabelle
  imports Main
begin

section \<open>JavaScript values, errors and Express outcomes\<close>

text \<open>
  A Mongo ObjectId is modelled by its string form, the form in which it appears in
  route parameters and in the interpolated error messages.
\<close>

type_synonym oid = string

datatype jval = JNull | JBool bool | JNum int | JStr string | JOid oid

text \<open>JavaScript truthiness, as used by \<^verbatim>\<open>if (req.body.rating)\<close>.\<close>

fun truthy :: "jval option \<Rightarrow> bool" where
  "truthy None = False"
| "truthy (Some JNull) = False"
| "truthy (Some (JBool b)) = b"
| "truthy (Some (JNum n)) = (n \<noteq> 0)"
| "truthy (Some (JStr s)) = (s \<noteq> [])"
| "truthy (Some (JOid i)) = True"

text \<open>
  Errors that travel through \<^verbatim>\<open>next(err)\<close>: an \<^verbatim>\<open>Error\<close> built by a handler with
  a \<^verbatim>\<open>status\<close> set on it, an error raised by the JavaScript engine, an error
  delivered by the document store, or one of the credential errors the spec names.
\<close>

datatype auth_error =
  UserNotFound | BadCredentials | UsernameTaken | MissingUsername | MissingPassword

datatype js_error =
    HttpError nat string
  | ReferenceError string
  | TypeError string
  | StoreError string
  | AuthError auth_error

section \<open>Documents\<close>

record user =
  u_id :: oid
  username :: string
  firstname :: string
  lastname :: string
  facebookId :: "string option"
  admin :: bool
  salt :: "string option"
  hash :: "string option"

record comment =
  c_id :: oid
  c_rating :: "jval option"
  c_text :: "jval option"
  c_author :: "oid option"

record campsite =
  cs_id :: oid
  cs_fields :: "string \<rightharpoonup> jval"
  comments :: "comment list"

record favorite =
  f_id :: oid
  f_user :: oid
  f_campsites :: "oid list"

record db =
  users :: "user list"
  campsites :: "campsite list"
  favorites :: "favorite list"

text \<open>A comment or campsite whose \<^verbatim>\<open>comments.author\<close> path has been populated.\<close>

type_synonym pcomment = "comment \<times> user option"
type_synonym pcampsite = "campsite \<times> pcomment list"

record jwt_payload =
  p_id :: oid
  iat :: nat
  exp :: nat

record token =
  t_payload :: jwt_payload
  t_signature :: string

datatype payload =
    Text string
  | Redirect string
  | JCampsites "pcampsite list"
  | JPopulated "pcampsite option"
  | JCampsite "campsite option"
  | JDeleted nat
  | JComments "pcomment list"
  | JComment pcomment
  | JFavorites "(favorite \<times> user option \<times> campsite list) list"
  | JFavorite favorite
  | JStatus bool string
  | JLogin bool token string
  | JErr js_error

record response =
  statusCode :: nat
  contentType :: "string option"
  clearedCookies :: "string list"
  content :: payload

text \<open>
  What a middleware or handler does with a request: it answers, calls \<^verbatim>\<open>next()\<close>,
  calls \<^verbatim>\<open>next(err)\<close>, throws synchronously, or leaves a rejected promise unhandled
  (the request is then never answered).
\<close>

datatype outcome =
    Respond response
  | Next
  | NextErr js_error
  | Throw js_error
  | Unhandled js_error

definition json :: "nat \<Rightarrow> payload \<Rightarrow> outcome" where
  "json st p = Respond \<lparr>statusCode = st, contentType = Some ''application/json'',
     clearedCookies = [], content = p\<rparr>"

definition plain :: "nat \<Rightarrow> string \<Rightarrow> outcome" where
  "plain st s = Respond \<lparr>statusCode = st, contentType = Some ''text/plain'',
     clearedCookies = [], content = Text s\<rparr>"

definition end_with :: "nat \<Rightarrow> string \<Rightarrow> outcome" where
  "end_with st s = Respond \<lparr>statusCode = st, contentType = None,
     clearedCookies = [], content = Text s\<rparr>"

section \<open>The environment of a request\<close>

text \<open>
  Everything a request depends on besides the store's contents: the signing secret of
  \<^verbatim>\<open>config.js\<close>, the keyed signature function of the token library, the clock in
  whole seconds, the message of the error (if any) that the store raises at each of its
  calls, and the
  ObjectId the driver hands to the next new document. \<^term>\<open>faults env k\<close> is the
  error of the handler's \<open>k\<close>-th store call; \<^term>\<open>lookup_fault env\<close> that of the user
  lookup during token verification.
\<close>

record env =
  secretKey :: string
  hmac :: "string \<Rightarrow> jwt_payload \<Rightarrow> string"
  clock :: nat
  lookup_fault :: "string option"
  faults :: "nat \<Rightarrow> string option"
  new_id :: oid

section \<open>The document store\<close>

text \<open>
  The store is an external collaborator (Mongoose over MongoDB). Each call either
  raises the error the environment injects (\<open>StoreError\<close> with the store's message)
  or acts on the in-memory collections.
  \<^verbatim>\<open>save\<close> on a document created with \<^verbatim>\<open>new\<close> inserts it; \<^verbatim>\<open>save\<close> on a
  document that was loaded from the store replaces the stored copy with the same id.
\<close>

definition User_findOne ::
  "string option \<Rightarrow> db \<Rightarrow> (user \<Rightarrow> bool) \<Rightarrow> js_error + user option" where
  "User_findOne flt d q = (case flt of Some e \<Rightarrow> Inl (StoreError e) | None \<Rightarrow> Inr (find q (users d)))"

definition User_insert :: "string option \<Rightarrow> db \<Rightarrow> user \<Rightarrow> js_error + db" where
  "User_insert flt d u =
     (case flt of Some e \<Rightarrow> Inl (StoreError e) | None \<Rightarrow> Inr (d\<lparr>users := users d @ [u]\<rparr>))"

definition User_update :: "string option \<Rightarrow> db \<Rightarrow> user \<Rightarrow> js_error + db" where
  "User_update flt d u =
     (case flt of Some e \<Rightarrow> Inl (StoreError e)
      | None \<Rightarrow> Inr (d\<lparr>users := map (\<lambda>v. if u_id v = u_id u then u else v) (users d)\<rparr>))"

definition Campsite_find :: "string option \<Rightarrow> db \<Rightarrow> js_error + campsite list" where
  "Campsite_find flt d = (case flt of Some e \<Rightarrow> Inl (StoreError e) | None \<Rightarrow> Inr (campsites d))"

definition Campsite_findById ::
  "string option \<Rightarrow> db \<Rightarrow> oid \<Rightarrow> js_error + campsite option" where
  "Campsite_findById flt d i =
     (case flt of Some e \<Rightarrow> Inl (StoreError e)
      | None \<Rightarrow> Inr (find (\<lambda>c. cs_id c = i) (campsites d)))"

definition Campsite_save :: "string option \<Rightarrow> db \<Rightarrow> campsite \<Rightarrow> js_error + db" where
  "Campsite_save flt d cs =
     (case flt of Some e \<Rightarrow> Inl (StoreError e)
      | None \<Rightarrow>
          Inr (d\<lparr>campsites := map (\<lambda>c. if cs_id c = cs_id cs then cs else c) (campsites d)\<rparr>))"

definition Campsite_create ::
  "string option \<Rightarrow> oid \<Rightarrow> db \<Rightarrow> (string \<rightharpoonup> jval) \<Rightarrow> js_error + campsite \<times> db" where
  "Campsite_create flt nid d b =
     (case flt of Some e \<Rightarrow> Inl (StoreError e)
      | None \<Rightarrow>
          (let c = \<lparr>cs_id = nid, cs_fields = b, comments = []\<rparr>
           in Inr (c, d\<lparr>campsites := campsites d @ [c]\<rparr>)))"

definition Campsite_deleteMany :: "string option \<Rightarrow> db \<Rightarrow> js_error + nat \<times> db" where
  "Campsite_deleteMany flt d =
     (case flt of Some e \<Rightarrow> Inl (StoreError e)
      | None \<Rightarrow> Inr (length (campsites d), d\<lparr>campsites := []\<rparr>))"

definition Campsite_findByIdAndUpdate ::
  "string option \<Rightarrow> db \<Rightarrow> oid \<Rightarrow> (string \<rightharpoonup> jval) \<Rightarrow> js_error + campsite option \<times> db" where
  "Campsite_findByIdAndUpdate flt d i b =
     (case flt of Some e \<Rightarrow> Inl (StoreError e)
      | None \<Rightarrow>
          (case find (\<lambda>c. cs_id c = i) (campsites d) of
             None \<Rightarrow> Inr (None, d)
           | Some c \<Rightarrow>
               (let c' = c\<lparr>cs_fields := cs_fields c ++ b\<rparr>
                in Inr (Some c',
                     d\<lparr>campsites := map (\<lambda>x. if cs_id x = i then c' else x) (campsites d)\<rparr>))))"

definition Campsite_findByIdAndDelete ::
  "string option \<Rightarrow> db \<Rightarrow> oid \<Rightarrow> js_error + campsite option \<times> db" where
  "Campsite_findByIdAndDelete flt d i =
     (case flt of Some e \<Rightarrow> Inl (StoreError e)
      | None \<Rightarrow>
          (case find (\<lambda>c. cs_id c = i) (campsites d) of
             None \<Rightarrow> Inr (None, d)
           | Some c \<Rightarrow> Inr (Some c, d\<lparr>campsites := filter (\<lambda>x. cs_id x \<noteq> i) (campsites d)\<rparr>)))"

definition Favorite_find :: "string option \<Rightarrow> db \<Rightarrow> oid \<Rightarrow> js_error + favorite list" where
  "Favorite_find flt d uid =
     (case flt of Some e \<Rightarrow> Inl (StoreError e)
      | None \<Rightarrow> Inr (filter (\<lambda>f. f_user f = uid) (favorites d)))"

definition Favorite_findOne ::
  "string option \<Rightarrow> db \<Rightarrow> oid \<Rightarrow> js_error + favorite option" where
  "Favorite_findOne flt d uid =
     (case flt of Some e \<Rightarrow> Inl (StoreError e)
      | None \<Rightarrow> Inr (find (\<lambda>f. f_user f = uid) (favorites d)))"

definition Favorite_save :: "string option \<Rightarrow> db \<Rightarrow> favorite \<Rightarrow> js_error + db" where
  "Favorite_save flt d fv =
     (case flt of Some e \<Rightarrow> Inl (StoreError e)
      | None \<Rightarrow>
          Inr (d\<lparr>favorites := map (\<lambda>f. if f_id f = f_id fv then fv else f) (favorites d)\<rparr>))"

definition Favorite_create ::
  "string option \<Rightarrow> oid \<Rightarrow> db \<Rightarrow> oid \<Rightarrow> oid list \<Rightarrow> js_error + favorite \<times> db" where
  "Favorite_create flt nid d uid cs =
     (case flt of Some e \<Rightarrow> Inl (StoreError e)
      | None \<Rightarrow>
          (let fv = \<lparr>f_id = nid, f_user = uid, f_campsites = cs\<rparr>
           in Inr (fv, d\<lparr>favorites := favorites d @ [fv]\<rparr>)))"

definition Favorite_remove :: "string option \<Rightarrow> db \<Rightarrow> favorite \<Rightarrow> js_error + db" where
  "Favorite_remove flt d fv =
     (case flt of Some e \<Rightarrow> Inl (StoreError e)
      | None \<Rightarrow> Inr (d\<lparr>favorites := filter (\<lambda>f. f_id f \<noteq> f_id fv) (favorites d)\<rparr>))"

text \<open>\<^verbatim>\<open>.populate('comments.author')\<close> and the subdocument array's \<^verbatim>\<open>id()\<close>.\<close>

definition populate_comment :: "user list \<Rightarrow> comment \<Rightarrow> pcomment" where
  "populate_comment us c =
     (c, case c_author c of None \<Rightarrow> None | Some a \<Rightarrow> find (\<lambda>u. u_id u = a) us)"

definition populate :: "user list \<Rightarrow> campsite \<Rightarrow> pcampsite" where
  "populate us cs = (cs, map (populate_comment us) (comments cs))"

definition comments_id :: "comment list \<Rightarrow> oid \<Rightarrow> comment option" where
  "comments_id cs i = find (\<lambda>c. c_id c = i) cs"

section \<open>authenticate.js: tokens\<close>

text \<open>
  Modelled from the spec: \<^verbatim>\<open>jwt.sign\<close> of the jsonwebtoken package, which the
  repository calls and does not contain. By the spec's token format the signed structure
  holds the user id, \<^verbatim>\<open>iat\<close> and \<^verbatim>\<open>exp = iat + expiresIn\<close>; the signature is a keyed
  function of the secret and the payload, taken as the parameter \<open>mac\<close>.
\<close>

definition jwt_sign ::
  "(string \<Rightarrow> jwt_payload \<Rightarrow> string) \<Rightarrow> nat \<Rightarrow> oid \<Rightarrow> string \<Rightarrow> nat \<Rightarrow> token" where
  "jwt_sign mac now uid secret expiresIn =
     (let p = \<lparr>p_id = uid, iat = now, exp = now + expiresIn\<rparr>
      in \<lparr>t_payload = p, t_signature = mac secret p\<rparr>)"

datatype jwt_error = InvalidSignature | Expired

text \<open>
  Modelled from the spec: \<^verbatim>\<open>jwt.verify\<close> of the jsonwebtoken package, as the
  JWT strategy runs it with the options of \<^verbatim>\<open>opts\<close> (no clock tolerance, expiry not
  ignored). It fails with \<open>InvalidSignature\<close> if the signature does not match, with
  \<open>Expired\<close> from the embedded expiry on, and otherwise returns the payload.
\<close>

definition jwt_verify ::
  "(string \<Rightarrow> jwt_payload \<Rightarrow> string) \<Rightarrow> nat \<Rightarrow> token \<Rightarrow> string \<Rightarrow> jwt_error + jwt_payload" where
  "jwt_verify mac now tok secret =
     (if t_signature tok \<noteq> mac secret (t_payload tok) then Inl InvalidSignature
      else if exp (t_payload tok) \<le> now then Inl Expired
      else Inr (t_payload tok))"

text \<open>\<^verbatim>\<open>exports.getToken\<close>: the payload is \<^verbatim>\<open>{_id: ...}\<close>, the lifetime 3600 seconds.\<close>

definition getToken :: "(string \<Rightarrow> jwt_payload \<Rightarrow> string) \<Rightarrow> string \<Rightarrow> nat \<Rightarrow> oid \<Rightarrow> token" where
  "getToken mac secret now uid = jwt_sign mac now uid secret 3600"

text \<open>The result handed to Passport's \<^verbatim>\<open>done\<close> callback.\<close>

datatype verified = Done_err js_error | Done_user user | Done_false

text \<open>The verify callback of \<^verbatim>\<open>exports.jwtPassport\<close>.\<close>

definition jwtPassport :: "string option \<Rightarrow> db \<Rightarrow> jwt_payload \<Rightarrow> verified" where
  "jwtPassport flt d p =
     (case User_findOne flt d (\<lambda>u. u_id u = p_id p) of
        Inl err \<Rightarrow> Done_err err
      | Inr (Some u) \<Rightarrow> Done_user u
      | Inr None \<Rightarrow> Done_false)"

definition unauthorized :: outcome where
  "unauthorized = end_with 401 ''Unauthorized''"

text \<open>
  Modelled from the spec: \<^verbatim>\<open>exports.verifyUser\<close>, that is
  \<^verbatim>\<open>passport.authenticate('jwt', {session: false})\<close>, whose body is in the passport and
  passport-jwt packages. It is the spec's \<open>requireAuthenticated\<close>: the request is
  answered 401 unless it carries a bearer token that verification accepts and whose user
  id resolves to an existing user, who then becomes \<^verbatim>\<open>req.user\<close>.
\<close>

definition verifyUser :: "env \<Rightarrow> db \<Rightarrow> token option \<Rightarrow> outcome \<times> user option" where
  "verifyUser e d hdr =
     (case hdr of
        None \<Rightarrow> (unauthorized, None)
      | Some tok \<Rightarrow>
          (case jwt_verify (hmac e) (clock e) tok (secretKey e) of
             Inl _ \<Rightarrow> (unauthorized, None)
           | Inr p \<Rightarrow>
               (case jwtPassport (lookup_fault e) d p of
                  Done_err err \<Rightarrow> (NextErr err, None)
                | Done_user u \<Rightarrow> (Next, Some u)
                | Done_false \<Rightarrow> (unauthorized, None))))"

section \<open>authenticate.js: third-party login\<close>

record profile =
  pr_id :: string
  displayName :: string
  givenName :: string
  familyName :: string

text \<open>
  The verify callback of \<^verbatim>\<open>exports.facebookPassport\<close>. \<^verbatim>\<open>new User({username: ...})\<close>
  leaves every other field at its schema default; the new document's id is \<open>nid\<close>.
\<close>

definition facebookPassport ::
  "(nat \<Rightarrow> string option) \<Rightarrow> oid \<Rightarrow> db \<Rightarrow> profile \<Rightarrow> db \<times> verified" where
  "facebookPassport flt nid d pr =
     (case User_findOne (flt 0) d (\<lambda>u. facebookId u = Some (pr_id pr)) of
        Inl err \<Rightarrow> (d, Done_err err)
      | Inr (Some u) \<Rightarrow> (d, Done_user u)
      | Inr None \<Rightarrow>
          (let u0 = \<lparr>u_id = nid, username = displayName pr, firstname = [], lastname = [],
                     facebookId = None, admin = False, salt = None, hash = None\<rparr>;
               u1 = u0\<lparr>facebookId := Some (pr_id pr)\<rparr>;
               u2 = u1\<lparr>firstname := givenName pr\<rparr>;
               u3 = u2\<lparr>lastname := familyName pr\<rparr>
           in case User_insert (flt 1) d u3 of
                Inl err \<Rightarrow> (d, Done_err err)
              | Inr d' \<Rightarrow> (d', Done_user u3)))"

section \<open>authenticate.js: the authorization guard\<close>

text \<open>\<^verbatim>\<open>exports.verifyAdmin\<close>.\<close>

definition verifyAdmin :: "user \<Rightarrow> outcome" where
  "verifyAdmin u =
     (if admin u then Next
      else NextErr (HttpError 403 ''You are not authorized to perform this operation!''))"

section \<open>routes/users.js: logout\<close>

text \<open>
  \<^verbatim>\<open>router.get('/logout', ...)\<close>. The request's session, if any, is the argument; the
  session that remains is returned with the outcome. In the else branch the source builds
  \<^verbatim>\<open>err\<close> with status 401 and then evaluates \<^verbatim>\<open>next(Err)\<close>: the identifier
  \<^verbatim>\<open>Err\<close> is not bound, so evaluating the argument throws before \<^verbatim>\<open>next\<close> runs.
\<close>

definition logout :: "'s option \<Rightarrow> 's option \<times> outcome" where
  "logout session =
     (case session of
        Some s \<Rightarrow>
          (None, Respond \<lparr>statusCode = 302, contentType = None,
             clearedCookies = [''session-id''], content = Redirect ''/''\<rparr>)
      | None \<Rightarrow> (None, Throw (ReferenceError ''Err is not defined'')))"

section \<open>The local authenticator\<close>

text \<open>
  Modelled from the spec: the Local Authenticator's \<open>authenticate\<close>, in the source
  \<^verbatim>\<open>User.authenticate()\<close>, which the passport-local-mongoose plugin adds to the
  model of \<^verbatim>\<open>models/user.js\<close>; neither is among the repository's files. It looks the
  user up by username, fails with \<open>UserNotFound\<close> if absent and with
  \<open>BadCredentials\<close> if the password does not match the stored salted hash, and
  otherwise returns the user. The one-way function \<open>kdf\<close> is a parameter.
\<close>

definition authenticate ::
  "(string \<Rightarrow> string \<Rightarrow> string) \<Rightarrow> string option \<Rightarrow> db \<Rightarrow> string \<Rightarrow> string
     \<Rightarrow> js_error + user" where
  "authenticate kdf flt d uname pw =
     (case User_findOne flt d (\<lambda>u. username u = uname) of
        Inl err \<Rightarrow> Inl err
      | Inr None \<Rightarrow> Inl (AuthError UserNotFound)
      | Inr (Some u) \<Rightarrow>
          (case (salt u, hash u) of
             (Some s, Some h) \<Rightarrow>
               if kdf pw s = h then Inr u else Inl (AuthError BadCredentials)
           | _ \<Rightarrow> Inl (AuthError BadCredentials)))"

text \<open>
  Modelled from the spec: the Local Authenticator's \<open>register\<close>, in the source
  \<^verbatim>\<open>User.register\<close> of the same plugin. It fails with \<open>UsernameTaken\<close> if the
  username already exists and otherwise creates and persists a new user with the hashed
  password. The spec speaks of valid pairs without saying which are; here, as in the
  plugin, an empty username or password is refused. The salt \<open>slt\<close> is drawn by the
  environment.
\<close>

definition register ::
  "(string \<Rightarrow> string \<Rightarrow> string) \<Rightarrow> string \<Rightarrow> (nat \<Rightarrow> string option) \<Rightarrow> oid \<Rightarrow> db
     \<Rightarrow> string \<Rightarrow> string \<Rightarrow> js_error + user \<times> db" where
  "register kdf slt flt nid d uname pw =
     (if uname = [] then Inl (AuthError MissingUsername)
      else
        (case User_findOne (flt 0) d (\<lambda>u. username u = uname) of
           Inl err \<Rightarrow> Inl err
         | Inr (Some existing) \<Rightarrow> Inl (AuthError UsernameTaken)
         | Inr None \<Rightarrow>
             if pw = [] then Inl (AuthError MissingPassword)
             else
               (let u = \<lparr>u_id = nid, username = uname, firstname = [], lastname = [],
                          facebookId = None, admin = False,
                          salt = Some slt, hash = Some (kdf pw slt)\<rparr>
                in case User_insert (flt 1) d u of
                     Inl err \<Rightarrow> Inl err
                   | Inr d' \<Rightarrow> Inr (u, d'))))"

text \<open>
  Modelled from the spec: \<^verbatim>\<open>passport.authenticate('local')\<close>, whose body is in the
  passport and passport-local packages. Credentials that are missing are answered 400,
  an authentication failure 401 (the spec's status for authentication failures), a
  store error is passed on, and on success the user becomes \<^verbatim>\<open>req.user\<close>.
\<close>

definition passport_local ::
  "(string \<Rightarrow> string \<Rightarrow> string) \<Rightarrow> string option \<Rightarrow> db \<Rightarrow> string \<Rightarrow> string
     \<Rightarrow> outcome \<times> user option" where
  "passport_local kdf flt d uname pw =
     (if uname = [] \<or> pw = [] then (end_with 400 ''Bad Request'', None)
      else
        (case authenticate kdf flt d uname pw of
           Inr u \<Rightarrow> (Next, Some u)
         | Inl (AuthError a) \<Rightarrow> (unauthorized, None)
         | Inl err \<Rightarrow> (NextErr err, None)))"

section \<open>routes/users.js\<close>

text \<open>
  The body of a signup or login request. A field the client did not send reads as the
  empty string: the source only tests these fields for truthiness.
\<close>

record credentials =
  b_username :: string
  b_password :: string
  b_firstname :: string
  b_lastname :: string

text \<open>
  \<^verbatim>\<open>router.post('/signup', ...)\<close>. The callback handed to
  \<^verbatim>\<open>passport.authenticate('local')(req, res, ...)\<close> takes the place of \<^verbatim>\<open>next\<close>
  and has no parameter: it answers 200 whether Passport calls it after a successful
  login or with an error. Only a failed authentication, which Passport answers itself,
  keeps it from running.
\<close>

definition signup ::
  "(string \<Rightarrow> string \<Rightarrow> string) \<Rightarrow> string \<Rightarrow> (nat \<Rightarrow> string option) \<Rightarrow> oid \<Rightarrow> db
     \<Rightarrow> credentials \<Rightarrow> db \<times> outcome" where
  "signup kdf slt flt nid d b =
     (case register kdf slt flt nid d (b_username b) (b_password b) of
        Inl err \<Rightarrow> (d, json 500 (JErr err))
      | Inr (u, d1) \<Rightarrow>
          (let u1 = (if b_firstname b \<noteq> [] then u\<lparr>firstname := b_firstname b\<rparr> else u);
               u2 = (if b_lastname b \<noteq> [] then u1\<lparr>lastname := b_lastname b\<rparr> else u1)
           in case User_update (flt 2) d1 u2 of
                Inl err \<Rightarrow> (d1, json 500 (JErr err))
              | Inr d2 \<Rightarrow>
                  (case passport_local kdf (flt 3) d2 (b_username b) (b_password b) of
                     (Next, who) \<Rightarrow> (d2, json 200 (JStatus True ''Registration Successful!''))
                   | (NextErr err, who) \<Rightarrow>
                       (d2, json 200 (JStatus True ''Registration Successful!''))
                   | (out, who) \<Rightarrow> (d2, out))))"

text \<open>\<^verbatim>\<open>router.post('/login', passport.authenticate('local'), ...)\<close>.\<close>

definition login ::
  "(string \<Rightarrow> string \<Rightarrow> string) \<Rightarrow> env \<Rightarrow> db \<Rightarrow> credentials \<Rightarrow> outcome" where
  "login kdf e d b =
     (case passport_local kdf (faults e 0) d (b_username b) (b_password b) of
        (Next, Some u) \<Rightarrow>
          json 200 (JLogin True (getToken (hmac e) (secretKey e) (clock e) (u_id u))
            ''You are successfully logged in!'')
      | (Next, None) \<Rightarrow> Throw (TypeError ''req.user is undefined'')
      | (out, who) \<Rightarrow> out)"

section \<open>routes/campsiteRouter.js\<close>

record req =
  bearer :: "token option"
  campsiteId :: oid
  commentId :: oid
  body :: "string \<rightharpoonup> jval"
  req_user :: "user option"

type_synonym handler = "env \<Rightarrow> req \<Rightarrow> db \<Rightarrow> db \<times> outcome"

definition campsite_not_found :: "req \<Rightarrow> js_error" where
  "campsite_not_found r = HttpError 404 (''Campsite '' @ campsiteId r @ '' not found'')"

definition comment_not_found :: "req \<Rightarrow> js_error" where
  "comment_not_found r = HttpError 404 (''Comment '' @ commentId r @ '' not found'')"

definition no_user :: js_error where
  "no_user = TypeError ''req.user is undefined''"

subsection \<open>/campsites\<close>

definition get_campsites :: handler where
  "get_campsites e r d =
     (case Campsite_find (faults e 0) d of
        Inl err \<Rightarrow> (d, NextErr err)
      | Inr cs \<Rightarrow> (d, json 200 (JCampsites (map (populate (users d)) cs))))"

definition post_campsites :: handler where
  "post_campsites e r d =
     (case Campsite_create (faults e 0) (new_id e) d (body r) of
        Inl err \<Rightarrow> (d, NextErr err)
      | Inr (campsite, d') \<Rightarrow> (d', json 200 (JCampsite (Some campsite))))"

definition put_campsites :: handler where
  "put_campsites e r d = (d, end_with 403 ''PUT operation not supported on /campsites'')"

definition delete_campsites :: handler where
  "delete_campsites e r d =
     (case Campsite_deleteMany (faults e 0) d of
        Inl err \<Rightarrow> (d, NextErr err)
      | Inr (n, d') \<Rightarrow> (d', json 200 (JDeleted n)))"

subsection \<open>/campsites/:campsiteId\<close>

definition get_campsite :: handler where
  "get_campsite e r d =
     (case Campsite_findById (faults e 0) d (campsiteId r) of
        Inl err \<Rightarrow> (d, NextErr err)
      | Inr copt \<Rightarrow> (d, json 200 (JPopulated (map_option (populate (users d)) copt))))"

definition post_campsite :: handler where
  "post_campsite e r d =
     (d, end_with 403 (''POST operation not supported on /campsites/'' @ campsiteId r))"

definition put_campsite :: handler where
  "put_campsite e r d =
     (case Campsite_findByIdAndUpdate (faults e 0) d (campsiteId r) (body r) of
        Inl err \<Rightarrow> (d, NextErr err)
      | Inr (copt, d') \<Rightarrow> (d', json 200 (JCampsite copt)))"

definition delete_campsite :: handler where
  "delete_campsite e r d =
     (case Campsite_findByIdAndDelete (faults e 0) d (campsiteId r) of
        Inl err \<Rightarrow> (d, NextErr err)
      | Inr (copt, d') \<Rightarrow> (d', json 200 (JCampsite copt)))"

subsection \<open>/campsites/:campsiteId/comments\<close>

definition get_comments :: handler where
  "get_comments e r d =
     (case Campsite_findById (faults e 0) d (campsiteId r) of
        Inl err \<Rightarrow> (d, NextErr err)
      | Inr (Some campsite) \<Rightarrow>
          (d, json 200 (JComments (map (populate_comment (users d)) (comments campsite))))
      | Inr None \<Rightarrow> (d, NextErr (campsite_not_found r)))"

text \<open>
  The comment schema of \<^verbatim>\<open>models/campsite.js\<close> is not among the files: a pushed body
  becomes a subdocument with a new id that keeps the body's rating, text and author.
\<close>

definition cast_comment :: "oid \<Rightarrow> (string \<rightharpoonup> jval) \<Rightarrow> comment" where
  "cast_comment nid b =
     \<lparr>c_id = nid, c_rating = b ''rating'', c_text = b ''text'',
      c_author = (case b ''author'' of
                    Some (JOid a) \<Rightarrow> Some a
                  | Some (JStr a) \<Rightarrow> Some a
                  | _ \<Rightarrow> None)\<rparr>"

definition post_comments :: handler where
  "post_comments e r d =
     (case Campsite_findById (faults e 0) d (campsiteId r) of
        Inl err \<Rightarrow> (d, NextErr err)
      | Inr (Some campsite) \<Rightarrow>
          (case req_user r of
             None \<Rightarrow> (d, NextErr no_user)
           | Some u \<Rightarrow>
               (let b = (body r)(''author'' \<mapsto> JOid (u_id u));
                    campsite' =
                      campsite\<lparr>comments := comments campsite @ [cast_comment (new_id e) b]\<rparr>
                in case Campsite_save (faults e 1) d campsite' of
                     Inl err \<Rightarrow> (d, NextErr err)
                   | Inr d' \<Rightarrow> (d', json 200 (JCampsite (Some campsite')))))
      | Inr None \<Rightarrow> (d, NextErr (campsite_not_found r)))"

definition put_comments :: handler where
  "put_comments e r d =
     (d, end_with 403
           (''PUT operation not supported on /campsites/'' @ campsiteId r @ ''/comments''))"

text \<open>
  The loop of the DELETE handler: \<open>i\<close> runs from \<open>length - 1\<close> down to \<open>0\<close>; each
  round reads \<^verbatim>\<open>campsite.comments[i]._id\<close> and removes the subdocument of that id.
  \<open>remove_loop (Suc i)\<close> is the round at index \<open>i\<close>.
\<close>

fun remove_loop :: "nat \<Rightarrow> comment list \<Rightarrow> js_error + comment list" where
  "remove_loop 0 cs = Inr cs"
| "remove_loop (Suc i) cs =
     (if i < length cs
      then remove_loop i (filter (\<lambda>c. c_id c \<noteq> c_id (cs ! i)) cs)
      else Inl (TypeError ''campsite.comments[i] is undefined''))"

definition delete_comments :: handler where
  "delete_comments e r d =
     (case Campsite_findById (faults e 0) d (campsiteId r) of
        Inl err \<Rightarrow> (d, NextErr err)
      | Inr (Some campsite) \<Rightarrow>
          (case remove_loop (length (comments campsite)) (comments campsite) of
             Inl err \<Rightarrow> (d, NextErr err)
           | Inr cs \<Rightarrow>
               (let campsite' = campsite\<lparr>comments := cs\<rparr>
                in case Campsite_save (faults e 1) d campsite' of
                     Inl err \<Rightarrow> (d, NextErr err)
                   | Inr d' \<Rightarrow> (d', json 200 (JCampsite (Some campsite')))))
      | Inr None \<Rightarrow> (d, NextErr (campsite_not_found r)))"

subsection \<open>/campsites/:campsiteId/comments/:commentId\<close>

definition get_comment :: handler where
  "get_comment e r d =
     (case Campsite_findById (faults e 0) d (campsiteId r) of
        Inl err \<Rightarrow> (d, NextErr err)
      | Inr copt \<Rightarrow>
          (case copt of
             Some campsite \<Rightarrow>
               (case comments_id (comments campsite) (commentId r) of
                  Some c \<Rightarrow> (d, json 200 (JComment (populate_comment (users d) c)))
                | None \<Rightarrow> (d, NextErr (comment_not_found r)))
           | None \<Rightarrow> (d, NextErr (campsite_not_found r))))"

definition post_comment :: handler where
  "post_comment e r d =
     (d, end_with 403
           (''POST operation not supported on /campsites/'' @ campsiteId r @ ''/comments/''
              @ commentId r))"

text \<open>Assignment to a field of the first subdocument with the given id.\<close>

fun update_first :: "('a \<Rightarrow> bool) \<Rightarrow> ('a \<Rightarrow> 'a) \<Rightarrow> 'a list \<Rightarrow> 'a list" where
  "update_first q f [] = []"
| "update_first q f (x # xs) = (if q x then f x # xs else x # update_first q f xs)"

definition not_authorized_comment :: js_error where
  "not_authorized_comment = HttpError 403 ''You are not authorized to delete this comment!''"

definition put_comment :: handler where
  "put_comment e r d =
     (case Campsite_findById (faults e 0) d (campsiteId r) of
        Inl err \<Rightarrow> (d, NextErr err)
      | Inr copt \<Rightarrow>
          (case copt of
             Some campsite \<Rightarrow>
               (case comments_id (comments campsite) (commentId r) of
                  Some comment_from_database \<Rightarrow>
                    (case req_user r of
                       None \<Rightarrow> (d, NextErr no_user)
                     | Some u \<Rightarrow>
                         (case c_author comment_from_database of
                            None \<Rightarrow> (d, NextErr (TypeError ''author is undefined''))
                          | Some author_id \<Rightarrow>
                              if u_id u = author_id then
                                (let cs1 = (if truthy (body r ''rating'')
                                            then update_first (\<lambda>c. c_id c = commentId r)
                                                   (\<lambda>c. c\<lparr>c_rating := body r ''rating''\<rparr>)
                                                   (comments campsite)
                                            else comments campsite);
                                     cs2 = (if truthy (body r ''text'')
                                            then update_first (\<lambda>c. c_id c = commentId r)
                                                   (\<lambda>c. c\<lparr>c_text := body r ''text''\<rparr>) cs1
                                            else cs1);
                                     campsite' = campsite\<lparr>comments := cs2\<rparr>
                                 in case Campsite_save (faults e 1) d campsite' of
                                      Inl err \<Rightarrow> (d, NextErr err)
                                    | Inr d' \<Rightarrow> (d', json 200 (JCampsite (Some campsite'))))
                              else (d, NextErr not_authorized_comment)))
                | None \<Rightarrow> (d, NextErr (comment_not_found r)))
           | None \<Rightarrow> (d, NextErr (campsite_not_found r))))"

text \<open>
  The DELETE handler reads \<^verbatim>\<open>req.user._id\<close>, the comment and its author before any
  test, so a missing campsite, comment or author is a \<^verbatim>\<open>TypeError\<close> caught by the
  promise's \<^verbatim>\<open>catch\<close>. The tests then come in the order of the source: owner or
  admin first, existence inside it.
\<close>

definition delete_comment :: handler where
  "delete_comment e r d =
     (case Campsite_findById (faults e 0) d (campsiteId r) of
        Inl err \<Rightarrow> (d, NextErr err)
      | Inr copt \<Rightarrow>
          (case req_user r of
             None \<Rightarrow> (d, NextErr no_user)
           | Some u \<Rightarrow>
               (case copt of
                  None \<Rightarrow> (d, NextErr (TypeError ''campsite is null''))
                | Some campsite \<Rightarrow>
                    (case comments_id (comments campsite) (commentId r) of
                       None \<Rightarrow> (d, NextErr (TypeError ''comment_from_database is null''))
                     | Some comment_from_database \<Rightarrow>
                         (case c_author comment_from_database of
                            None \<Rightarrow> (d, NextErr (TypeError ''author is undefined''))
                          | Some author_id \<Rightarrow>
                              if u_id u = author_id \<or> admin u then
                                (if copt \<noteq> None
                                    \<and> comments_id (comments campsite) (commentId r) \<noteq> None
                                 then
                                   (let campsite' = campsite\<lparr>comments :=
                                          filter (\<lambda>c. c_id c \<noteq> commentId r) (comments campsite)\<rparr>
                                    in case Campsite_save (faults e 1) d campsite' of
                                         Inl err \<Rightarrow> (d, NextErr err)
                                       | Inr d' \<Rightarrow> (d', json 200 (JCampsite (Some campsite'))))
                                 else (d, NextErr not_authorized_comment))
                              else if copt = None then (d, NextErr (campsite_not_found r))
                              else (d, NextErr (comment_not_found r)))))))"

subsection \<open>The router\<close>

datatype middleware = VerifyUser | VerifyAdmin | Handler handler

datatype verb = GET | POST | PUT | DELETE

datatype path = Campsites | CampsiteById | Comments | CommentById

fun campsiteRouter :: "path \<Rightarrow> verb \<Rightarrow> middleware list" where
  "campsiteRouter Campsites GET = [Handler get_campsites]"
| "campsiteRouter Campsites POST = [VerifyUser, VerifyAdmin, Handler post_campsites]"
| "campsiteRouter Campsites PUT = [VerifyUser, Handler put_campsites]"
| "campsiteRouter Campsites DELETE = [VerifyUser, VerifyAdmin, Handler delete_campsites]"
| "campsiteRouter CampsiteById GET = [Handler get_campsite]"
| "campsiteRouter CampsiteById POST = [VerifyUser, Handler post_campsite]"
| "campsiteRouter CampsiteById PUT = [VerifyUser, VerifyAdmin, Handler put_campsite]"
| "campsiteRouter CampsiteById DELETE = [VerifyUser, VerifyAdmin, Handler delete_campsite]"
| "campsiteRouter Comments GET = [Handler get_comments]"
| "campsiteRouter Comments POST = [VerifyUser, Handler post_comments]"
| "campsiteRouter Comments PUT = [VerifyUser, Handler put_comments]"
| "campsiteRouter Comments DELETE = [VerifyUser, VerifyAdmin, Handler delete_comments]"
| "campsiteRouter CommentById GET = [Handler get_comment]"
| "campsiteRouter CommentById POST = [VerifyUser, Handler post_comment]"
| "campsiteRouter CommentById PUT = [VerifyUser, Handler put_comment]"
| "campsiteRouter CommentById DELETE = [VerifyUser, Handler delete_comment]"

text \<open>
  Express runs the middleware of a route in order; each one answers, passes an error
  on, or calls \<^verbatim>\<open>next()\<close>, which runs the rest.
\<close>

fun run :: "env \<Rightarrow> middleware list \<Rightarrow> req \<Rightarrow> db \<Rightarrow> db \<times> outcome" where
  "run e [] r d = (d, Next)"
| "run e (VerifyUser # ms) r d =
     (case verifyUser e d (bearer r) of
        (Next, who) \<Rightarrow> run e ms (r\<lparr>req_user := who\<rparr>) d
      | (out, who) \<Rightarrow> (d, out))"
| "run e (VerifyAdmin # ms) r d =
     (case req_user r of
        None \<Rightarrow> (d, Throw no_user)
      | Some u \<Rightarrow>
          (case verifyAdmin u of
             Next \<Rightarrow> run e ms r d
           | out \<Rightarrow> (d, out)))"
| "run e (Handler h # ms) r d =
     (case h e r d of
        (d', Next) \<Rightarrow> run e ms r d'
      | res \<Rightarrow> res)"

definition campsites_request :: "env \<Rightarrow> path \<Rightarrow> verb \<Rightarrow> req \<Rightarrow> db \<Rightarrow> db \<times> outcome" where
  "campsites_request e p m r d = run e (campsiteRouter p m) r d"

text \<open>\<^verbatim>\<open>router.get('/', authenticate.verifyUser, authenticate.verifyAdmin, ...)\<close> of users.js.\<close>

definition users_listing :: handler where
  "users_listing e r d =
     (d, Respond \<lparr>statusCode = 200, contentType = Some ''text/html'', clearedCookies = [],
            content = Text ''respond with a resource''\<rparr>)"

definition users_get :: "middleware list" where
  "users_get = [VerifyUser, VerifyAdmin, Handler users_listing]"

section \<open>routes/favoriteRouter.js\<close>

text \<open>
  The handlers of the favorites router, run after \<^verbatim>\<open>cors\<close> and
  \<^verbatim>\<open>authenticate.verifyUser\<close> with the authenticated user \<open>u\<close>. The body of a POST to
  \<^verbatim>\<open>/favorites\<close> is an array of objects; the list \<open>b\<close> holds their \<^verbatim>\<open>_id\<close>s in order.
\<close>

fun push_missing :: "oid list \<Rightarrow> oid list \<Rightarrow> oid list" where
  "push_missing cs [] = cs"
| "push_missing cs (x # xs) = push_missing (if x \<in> set cs then cs else cs @ [x]) xs"

definition favorites_get :: "env \<Rightarrow> user \<Rightarrow> db \<Rightarrow> db \<times> outcome" where
  "favorites_get e u d =
     (case Favorite_find (faults e 0) d (u_id u) of
        Inl err \<Rightarrow> (d, NextErr err)
      | Inr fs \<Rightarrow>
          (d, json 200 (JFavorites
                 (map (\<lambda>f. (f, find (\<lambda>v. u_id v = f_user f) (users d),
                              filter (\<lambda>c. cs_id c \<in> set (f_campsites f)) (campsites d)))
                    fs))))"

definition favorites_post :: "env \<Rightarrow> user \<Rightarrow> oid list \<Rightarrow> db \<Rightarrow> db \<times> outcome" where
  "favorites_post e u b d =
     (case Favorite_findOne (faults e 0) d (u_id u) of
        Inl err \<Rightarrow> (d, Unhandled err)
      | Inr (Some fv) \<Rightarrow>
          (let fv' = fv\<lparr>f_campsites := push_missing (f_campsites fv) b\<rparr>
           in case Favorite_save (faults e 1) d fv' of
                Inl err \<Rightarrow> (d, NextErr err)
              | Inr d' \<Rightarrow> (d', json 200 (JFavorite fv')))
      | Inr None \<Rightarrow>
          (case Favorite_create (faults e 1) (new_id e) d (u_id u) b of
             Inl err \<Rightarrow> (d, NextErr err)
           | Inr (fv, d') \<Rightarrow> (d', json 200 (JFavorite fv))))"

definition favorites_put :: "env \<Rightarrow> user \<Rightarrow> db \<Rightarrow> db \<times> outcome" where
  "favorites_put e u d = (d, end_with 403 ''PUT operation is not supported on /favorites'')"

definition favorites_delete :: "env \<Rightarrow> user \<Rightarrow> db \<Rightarrow> db \<times> outcome" where
  "favorites_delete e u d =
     (case Favorite_findOne (faults e 0) d (u_id u) of
        Inl err \<Rightarrow> (d, NextErr err)
      | Inr (Some fv) \<Rightarrow>
          (case Favorite_remove (faults e 1) d fv of
             Inl err \<Rightarrow> (d, NextErr err)
           | Inr d' \<Rightarrow> (d', json 200 (JFavorite fv)))
      | Inr None \<Rightarrow> (d, plain 404 ''You do not have any favorites to delete.''))"

definition favorite_get :: "env \<Rightarrow> user \<Rightarrow> oid \<Rightarrow> db \<Rightarrow> db \<times> outcome" where
  "favorite_get e u cid d =
     (d, end_with 403 (''GET operation is not supported on /favorites/'' @ cid))"

definition favorite_post :: "env \<Rightarrow> user \<Rightarrow> oid \<Rightarrow> db \<Rightarrow> db \<times> outcome" where
  "favorite_post e u cid d =
     (case Favorite_findOne (faults e 0) d (u_id u) of
        Inl err \<Rightarrow> (d, NextErr err)
      | Inr (Some fv) \<Rightarrow>
          if cid \<notin> set (f_campsites fv) then
            (let fv' = fv\<lparr>f_campsites := f_campsites fv @ [cid]\<rparr>
             in case Favorite_save (faults e 1) d fv' of
                  Inl err \<Rightarrow> (d, NextErr err)
                | Inr d' \<Rightarrow> (d', json 200 (JFavorite fv')))
          else (d, plain 200 ''That campsite is already a favorite!'')
      | Inr None \<Rightarrow>
          (case Favorite_create (faults e 1) (new_id e) d (u_id u) [cid] of
             Inl err \<Rightarrow> (d, NextErr err)
           | Inr (fv, d') \<Rightarrow> (d', json 200 (JFavorite fv))))"

section \<open>Sample data\<close>

text \<open>A small store and environment on which the theorems below are run.\<close>

definition alice :: user where
  "alice = \<lparr>u_id = ''u1'', username = ''alice'', firstname = ''Alice'', lastname = ''A'',
             facebookId = None, admin = False, salt = None, hash = None\<rparr>"

definition bob :: user where
  "bob = \<lparr>u_id = ''u2'', username = ''bob'', firstname = ''Bob'', lastname = ''B'',
           facebookId = None, admin = False, salt = None, hash = None\<rparr>"

definition root :: user where
  "root = \<lparr>u_id = ''u3'', username = ''root'', firstname = [], lastname = [],
            facebookId = None, admin = True, salt = None, hash = None\<rparr>"

definition remark :: comment where
  "remark = \<lparr>c_id = ''k1'', c_rating = Some (JNum 5), c_text = Some (JStr ''Nice''),
              c_author = Some ''u1''\<rparr>"

definition site :: campsite where
  "site = \<lparr>cs_id = ''c1'', cs_fields = Map.empty, comments = [remark]\<rparr>"

definition db0 :: db where
  "db0 = \<lparr>users = [alice, bob, root], campsites = [site], favorites = []\<rparr>"

definition env0 :: env where
  "env0 = \<lparr>secretKey = ''12345-67890'', hmac = (\<lambda>k p. k @ p_id p), clock = 100,
            lookup_fault = None, faults = (\<lambda>k. None), new_id = ''n1''\<rparr>"

definition req0 :: req where
  "req0 = \<lparr>bearer = None, campsiteId = ''c1'', commentId = ''k1'', body = Map.empty,
            req_user = None\<rparr>"

section \<open>Rejections\<close>

text \<open>
  The HTTP status an error carries (only an error built by a handler has one), and what
  it means for a request to be rejected with a given status: the response has that
  status, or the error passed on carries it.
\<close>

fun err_status :: "js_error \<Rightarrow> nat option" where
  "err_status (HttpError n msg) = Some n"
| "err_status (ReferenceError msg) = None"
| "err_status (TypeError msg) = None"
| "err_status (StoreError msg) = None"
| "err_status (AuthError a) = None"

fun rejected_with :: "nat \<Rightarrow> outcome \<Rightarrow> bool" where
  "rejected_with n (Respond rs) = (statusCode rs = n)"
| "rejected_with n Next = False"
| "rejected_with n (NextErr err) = (err_status err = Some n)"
| "rejected_with n (Throw err) = (err_status err = Some n)"
| "rejected_with n (Unhandled err) = (err_status err = Some n)"

section \<open>Lemmas on lists\<close>

lemma find_append_None:
  "find P xs = None \<Longrightarrow> find P (xs @ ys) = find P ys"
  by (induction xs) (auto split: if_splits)

lemma find_None_iff_all: "(find P xs = None) = (\<forall>x\<in>set xs. \<not> P x)"
  by (induction xs) auto

lemma find_Some_mem: "find P xs = Some x \<Longrightarrow> x \<in> set xs \<and> P x"
  by (induction xs) (auto split: if_splits)

lemma find_map_replace:
  "find P xs = None \<Longrightarrow> P w \<Longrightarrow> Q x \<Longrightarrow>
     find P (map (\<lambda>v. if Q v then w else v) (xs @ [x])) = Some w"
  by (induction xs) (auto split: if_splits)

section \<open>Running a route\<close>

lemma run_single_handler: "run e [Handler h] r d = h e r d"
  by (cases "h e r d") (simp split: outcome.splits)

lemma run_verifyUser_next:
  "verifyUser e d (bearer r) = (Next, who) \<Longrightarrow>
     run e (VerifyUser # ms) r d = run e ms (r\<lparr>req_user := who\<rparr>) d"
  by simp

lemma run_verifyUser_stops:
  "fst (verifyUser e d (bearer r)) \<noteq> Next \<Longrightarrow>
     run e (VerifyUser # ms) r d = (d, fst (verifyUser e d (bearer r)))"
  by (cases "verifyUser e d (bearer r)") (simp split: outcome.splits)

section \<open>The admin gate\<close>

text \<open>
  C5. A request that reaches \<^verbatim>\<open>verifyAdmin\<close> with an authenticated user is passed on
  to the rest of the route when the user's admin flag is true, and is otherwise rejected
  with the error of status 403 and message
  "You are not authorized to perform this operation!"; the store is not touched.
\<close>

theorem verifyAdmin_gate:
  assumes "req_user r = Some u"
  shows "run e (VerifyAdmin # ms) r d =
           (if admin u then run e ms r d
            else (d, NextErr (HttpError 403
                    ''You are not authorized to perform this operation!'')))"
  using assms by (simp add: verifyAdmin_def)

theorem verifyAdmin_gate_witness:
  "run env0 [VerifyAdmin, Handler users_listing] (req0\<lparr>req_user := Some alice\<rparr>) db0
   = (db0, NextErr (HttpError 403 ''You are not authorized to perform this operation!''))"
  using verifyAdmin_gate [of "req0\<lparr>req_user := Some alice\<rparr>" alice env0
      "[Handler users_listing]" db0]
  by (simp add: alice_def)

lemma admin_gated_routes:
  "VerifyAdmin \<in> set (campsiteRouter p m) \<Longrightarrow>
     \<exists>h. campsiteRouter p m = [VerifyUser, VerifyAdmin, Handler h]"
  by (cases p; cases m) simp_all

section \<open>Logout\<close>

text \<open>
  C6. A logout request without a session does not end in the error
  "You are not logged in!" of status 401: evaluating the argument of \<^verbatim>\<open>next(Err)\<close>
  throws a \<^verbatim>\<open>ReferenceError\<close>, which carries no status.
\<close>

theorem logout_without_session:
  "logout (None :: unit option) = (None, Throw (ReferenceError ''Err is not defined''))
   \<and> snd (logout (None :: unit option)) \<noteq> NextErr (HttpError 401 ''You are not logged in!'')"
  by (simp add: logout_def)

lemma logout_with_session:
  "logout (Some s) =
     (None, Respond \<lparr>statusCode = 302, contentType = None,
        clearedCookies = [''session-id''], content = Redirect ''/''\<rparr>)"
  by (simp add: logout_def)

section \<open>Tokens\<close>

text \<open>
  C2. A token issued by \<open>getToken\<close> for a user id at time \<open>T\<close> verifies at every
  time before \<open>T + 3600\<close> and yields the embedded user id; from \<open>T + 3600\<close> on,
  verification fails with \<open>Expired\<close>.
\<close>

theorem token_lifetime:
  "jwt_verify mac t (getToken mac secret T uid) secret =
     (if t < T + 3600 then Inr \<lparr>p_id = uid, iat = T, exp = T + 3600\<rparr> else Inl Expired)"
  by (simp add: jwt_verify_def getToken_def jwt_sign_def Let_def)

lemma verifyUser_accepts_live_token:
  assumes "clock e < T + 3600" and "lookup_fault e = None"
    and "find (\<lambda>v. u_id v = uid) (users d) = Some u"
  shows "verifyUser e d (Some (getToken (hmac e) (secretKey e) T uid)) = (Next, Some u)"
  using assms
  by (simp add: verifyUser_def jwt_verify_def getToken_def jwt_sign_def Let_def
      jwtPassport_def User_findOne_def)

lemma verifyUser_rejects_expired_token:
  assumes "T + 3600 \<le> clock e"
  shows "verifyUser e d (Some (getToken (hmac e) (secretKey e) T uid)) = (unauthorized, None)"
  using assms
  by (simp add: verifyUser_def jwt_verify_def getToken_def jwt_sign_def Let_def)

text \<open>
  C7. A token whose signature is not the one the configured secret gives for its
  payload fails verification with \<open>InvalidSignature\<close>, whatever its payload and the
  time, and \<open>verifyUser\<close> answers 401 without resolving a user.
\<close>

theorem tampered_signature_rejected:
  assumes "t_signature tok \<noteq> hmac e (secretKey e) (t_payload tok)"
  shows "jwt_verify (hmac e) (clock e) tok (secretKey e) = Inl InvalidSignature
         \<and> verifyUser e d (Some tok) = (unauthorized, None)"
  using assms by (simp add: jwt_verify_def verifyUser_def)

theorem tampered_signature_rejected_witness:
  "jwt_verify (hmac env0) (clock env0)
      \<lparr>t_payload = \<lparr>p_id = ''u3'', iat = 0, exp = 3600\<rparr>, t_signature = ''forged''\<rparr>
      (secretKey env0) = Inl InvalidSignature
   \<and> verifyUser env0 db0
       (Some \<lparr>t_payload = \<lparr>p_id = ''u3'', iat = 0, exp = 3600\<rparr>, t_signature = ''forged''\<rparr>)
     = (unauthorized, None)"
  using tampered_signature_rejected
    [of "\<lparr>t_payload = \<lparr>p_id = ''u3'', iat = 0, exp = 3600\<rparr>, t_signature = ''forged''\<rparr>"
        env0 db0]
  by (simp add: env0_def)

section \<open>Third-party login\<close>

text \<open>
  C3. When no user of the store has the profile's external id and the store's calls
  succeed, a third-party login appends exactly one user, whose username is the profile's
  display name, whose external id is the profile's id and whose first and last name are
  the profile's given and family name; a later login with the same external id returns
  that user and leaves the store as it is.
\<close>

theorem facebook_login_creates_once:
  assumes "\<forall>v\<in>set (users d). facebookId v \<noteq> Some (pr_id pr)"
    and "flt 0 = None" and "flt 1 = None"
    and "pr_id pr' = pr_id pr" and "flt' 0 = None"
    and "u = \<lparr>u_id = nid, username = displayName pr, firstname = givenName pr,
               lastname = familyName pr, facebookId = Some (pr_id pr), admin = False,
               salt = None, hash = None\<rparr>"
    and "d' = d\<lparr>users := users d @ [u]\<rparr>"
  shows "facebookPassport flt nid d pr = (d', Done_user u)
         \<and> facebookPassport flt' nid' d' pr' = (d', Done_user u)"
proof -
  have none: "find (\<lambda>v. facebookId v = Some (pr_id pr)) (users d) = None"
    using assms(1) by (simp add: find_None_iff_all)
  have first: "facebookPassport flt nid d pr = (d', Done_user u)"
    using none assms(2,3,6,7)
    by (simp add: facebookPassport_def User_findOne_def User_insert_def Let_def)
  have "find (\<lambda>v. facebookId v = Some (pr_id pr)) (users d') = Some u"
    using none assms(6,7) by (simp add: find_append_None)
  then have "facebookPassport flt' nid' d' pr' = (d', Done_user u)"
    using assms(4,5) by (simp add: facebookPassport_def User_findOne_def)
  with first show ?thesis by simp
qed

theorem facebook_login_creates_once_witness:
  "facebookPassport (\<lambda>k. None) ''u9'' db0
      \<lparr>pr_id = ''fb7'', displayName = ''Dan D'', givenName = ''Dan'', familyName = ''D''\<rparr>
    = (db0\<lparr>users := [alice, bob, root,
          \<lparr>u_id = ''u9'', username = ''Dan D'', firstname = ''Dan'', lastname = ''D'',
           facebookId = Some ''fb7'', admin = False, salt = None, hash = None\<rparr>]\<rparr>,
       Done_user \<lparr>u_id = ''u9'', username = ''Dan D'', firstname = ''Dan'', lastname = ''D'',
           facebookId = Some ''fb7'', admin = False, salt = None, hash = None\<rparr>)
   \<and> facebookPassport (\<lambda>k. None) ''u10''
       (db0\<lparr>users := [alice, bob, root,
          \<lparr>u_id = ''u9'', username = ''Dan D'', firstname = ''Dan'', lastname = ''D'',
           facebookId = Some ''fb7'', admin = False, salt = None, hash = None\<rparr>]\<rparr>)
       \<lparr>pr_id = ''fb7'', displayName = ''Daniel'', givenName = ''Daniel'', familyName = ''D''\<rparr>
    = (db0\<lparr>users := [alice, bob, root,
          \<lparr>u_id = ''u9'', username = ''Dan D'', firstname = ''Dan'', lastname = ''D'',
           facebookId = Some ''fb7'', admin = False, salt = None, hash = None\<rparr>]\<rparr>,
       Done_user \<lparr>u_id = ''u9'', username = ''Dan D'', firstname = ''Dan'', lastname = ''D'',
           facebookId = Some ''fb7'', admin = False, salt = None, hash = None\<rparr>)"
  using facebook_login_creates_once
    [of db0 "\<lparr>pr_id = ''fb7'', displayName = ''Dan D'', givenName = ''Dan'', familyName = ''D''\<rparr>"
        "\<lambda>k. None"
        "\<lparr>pr_id = ''fb7'', displayName = ''Daniel'', givenName = ''Daniel'', familyName = ''D''\<rparr>"
        "\<lambda>k. None" _ "''u9''" _ "''u10''", OF _ _ _ _ _ refl refl]
  by (simp add: db0_def alice_def bob_def root_def)

lemma facebook_login_store_failure:
  assumes "flt 0 = Some msg \<or> (flt 0 = None
             \<and> find (\<lambda>v. facebookId v = Some (pr_id pr)) (users d) = None
             \<and> flt 1 = Some msg)"
  shows "facebookPassport flt nid d pr = (d, Done_err (StoreError msg))"
  using assms
  by (auto simp: facebookPassport_def User_findOne_def User_insert_def Let_def)

section \<open>Registration and local login\<close>

lemma register_then_authenticate:
  assumes "register kdf slt flt nid d uname pw = Inr (u, d')"
  shows "authenticate kdf None d' uname pw = Inr u
         \<and> u_id u = nid
         \<and> passport_local kdf None d' uname pw = (Next, Some u)"
proof -
  from assms have ne: "uname \<noteq> []" "pw \<noteq> []"
    by (auto simp: register_def User_findOne_def User_insert_def Let_def
        split: if_splits option.splits sum.splits)
  from assms have none: "find (\<lambda>v. username v = uname) (users d) = None"
    by (auto simp: register_def User_findOne_def User_insert_def Let_def
        split: if_splits option.splits sum.splits)
  from assms have u: "u = \<lparr>u_id = nid, username = uname, firstname = [], lastname = [],
                          facebookId = None, admin = False,
                          salt = Some slt, hash = Some (kdf pw slt)\<rparr>"
    and d': "d' = d\<lparr>users := users d @ [u]\<rparr>"
    by (auto simp: register_def User_findOne_def User_insert_def Let_def
        split: if_splits option.splits sum.splits)
  have "find (\<lambda>v. username v = uname) (users d') = Some u"
    using none u d' by (simp add: find_append_None)
  then have a: "authenticate kdf None d' uname pw = Inr u"
    using u by (simp add: authenticate_def User_findOne_def)
  then show ?thesis using ne u by (simp add: passport_local_def)
qed

text \<open>
  C4. When a signup request with a username and password is answered
  "Registration Successful!", the store holds the user that registration created, with
  the id it was given and the names the request sent, and a later local authentication
  with the same username and password (the store's lookup succeeding) resolves to that
  user: the login route answers with a token for that user's id.
\<close>

theorem signup_then_login:
  assumes "signup kdf slt flt nid d b
             = (d', json 200 (JStatus True ''Registration Successful!''))"
    and "faults e 0 = None"
    and "u = \<lparr>u_id = nid, username = b_username b, firstname = b_firstname b,
               lastname = b_lastname b, facebookId = None, admin = False,
               salt = Some slt, hash = Some (kdf (b_password b) slt)\<rparr>"
  shows "u \<in> set (users d')
         \<and> authenticate kdf None d' (b_username b) (b_password b) = Inr u
         \<and> passport_local kdf None d' (b_username b) (b_password b) = (Next, Some u)
         \<and> login kdf e d' b =
             json 200 (JLogin True (getToken (hmac e) (secretKey e) (clock e) nid)
               ''You are successfully logged in!'')"
proof -
  from assms(1) obtain u0 d1 where
    reg: "register kdf slt flt nid d (b_username b) (b_password b) = Inr (u0, d1)"
    by (auto simp: signup_def json_def split: sum.splits)
  from reg have ne: "b_username b \<noteq> []" "b_password b \<noteq> []"
    and none: "find (\<lambda>v. username v = b_username b) (users d) = None"
    and u0: "u0 = \<lparr>u_id = nid, username = b_username b, firstname = [], lastname = [],
                   facebookId = None, admin = False,
                   salt = Some slt, hash = Some (kdf (b_password b) slt)\<rparr>"
    and d1: "d1 = d\<lparr>users := users d @ [u0]\<rparr>"
    by (auto simp: register_def User_findOne_def User_insert_def Let_def
        split: if_splits option.splits sum.splits)
  have names: "(let u1 = (if b_firstname b \<noteq> [] then u0\<lparr>firstname := b_firstname b\<rparr> else u0)
     in if b_lastname b \<noteq> [] then u1\<lparr>lastname := b_lastname b\<rparr> else u1) = u"
    by (simp add: u0 assms(3) Let_def)
  from assms(1) reg have upd: "User_update (flt 2) d1 u = Inr d'"
    using names
    by (auto simp: signup_def json_def end_with_def unauthorized_def Let_def
        split: sum.splits prod.splits outcome.splits)
  then have d': "d' = d1\<lparr>users := map (\<lambda>v. if u_id v = u_id u then u else v) (users d1)\<rparr>"
    by (auto simp: User_update_def split: option.splits)
  have found: "find (\<lambda>v. username v = b_username b) (users d') = Some u"
    using none by (simp add: d' d1 u0 assms(3) find_map_replace del: map_append)
  then have mem: "u \<in> set (users d')"
    using find_Some_mem by fast
  from found have a: "authenticate kdf None d' (b_username b) (b_password b) = Inr u"
    by (simp add: authenticate_def User_findOne_def assms(3))
  then have pl: "passport_local kdf None d' (b_username b) (b_password b) = (Next, Some u)"
    using ne by (simp add: passport_local_def)
  then have "login kdf e d' b =
             json 200 (JLogin True (getToken (hmac e) (secretKey e) (clock e) nid)
               ''You are successfully logged in!'')"
    using assms(2) by (simp add: login_def assms(3))
  with mem a pl show ?thesis by simp
qed

theorem signup_then_login_witness:
  "signup (\<lambda>p s. s @ p) ''salt'' (\<lambda>k. None) ''u9'' db0
      \<lparr>b_username = ''carol'', b_password = ''secret'', b_firstname = ''Carol'',
       b_lastname = []\<rparr>
     = (db0\<lparr>users := [alice, bob, root,
           \<lparr>u_id = ''u9'', username = ''carol'', firstname = ''Carol'', lastname = [],
            facebookId = None, admin = False, salt = Some ''salt'',
            hash = Some ''saltsecret''\<rparr>]\<rparr>,
        json 200 (JStatus True ''Registration Successful!''))
   \<and> login (\<lambda>p s. s @ p) env0
        (db0\<lparr>users := [alice, bob, root,
           \<lparr>u_id = ''u9'', username = ''carol'', firstname = ''Carol'', lastname = [],
            facebookId = None, admin = False, salt = Some ''salt'',
            hash = Some ''saltsecret''\<rparr>]\<rparr>)
        \<lparr>b_username = ''carol'', b_password = ''secret'', b_firstname = ''Carol'',
         b_lastname = []\<rparr>
     = json 200 (JLogin True
         \<lparr>t_payload = \<lparr>p_id = ''u9'', iat = 100, exp = 3700\<rparr>,
          t_signature = ''12345-67890u9''\<rparr>
         ''You are successfully logged in!'')"
proof -
  have s: "signup (\<lambda>p s. s @ p) ''salt'' (\<lambda>k. None) ''u9'' db0
      \<lparr>b_username = ''carol'', b_password = ''secret'', b_firstname = ''Carol'',
       b_lastname = []\<rparr>
     = (db0\<lparr>users := [alice, bob, root,
           \<lparr>u_id = ''u9'', username = ''carol'', firstname = ''Carol'', lastname = [],
            facebookId = None, admin = False, salt = Some ''salt'',
            hash = Some ''saltsecret''\<rparr>]\<rparr>,
        json 200 (JStatus True ''Registration Successful!''))"
    by (simp add: signup_def register_def User_findOne_def User_insert_def User_update_def
        passport_local_def authenticate_def db0_def alice_def bob_def root_def Let_def)
  have f: "faults env0 0 = None"
    by (simp add: env0_def)
  from signup_then_login [OF s f refl] s show ?thesis
    by (simp add: getToken_def jwt_sign_def env0_def Let_def)
qed

lemma signup_ignores_lookup_error:
  assumes "register kdf slt flt nid d (b_username b) (b_password b) = Inr (u0, d1)"
    and "flt 2 = None" and "flt 3 = Some msg"
  shows "snd (signup kdf slt flt nid d b) = json 200 (JStatus True ''Registration Successful!'')"
proof -
  from assms(1) have ne: "b_username b \<noteq> []" "b_password b \<noteq> []"
    by (auto simp: register_def split: if_splits option.splits sum.splits)
  have "passport_local kdf (Some msg) d2 (b_username b) (b_password b)
          = (NextErr (StoreError msg), None)" for d2
    using ne by (simp add: passport_local_def authenticate_def User_findOne_def)
  then show ?thesis
    using assms by (simp add: signup_def User_update_def Let_def)
qed

section \<open>Reading is open, writing needs a token\<close>

lemma get_campsites_not_401: "\<not> rejected_with 401 (snd (get_campsites e r d))"
  by (simp add: get_campsites_def Campsite_find_def json_def split: option.splits)

lemma get_campsite_not_401: "\<not> rejected_with 401 (snd (get_campsite e r d))"
  by (simp add: get_campsite_def Campsite_findById_def json_def split: option.splits)

lemma get_comments_not_401: "\<not> rejected_with 401 (snd (get_comments e r d))"
  by (simp add: get_comments_def Campsite_findById_def json_def campsite_not_found_def
      split: option.splits)

lemma get_comment_not_401: "\<not> rejected_with 401 (snd (get_comment e r d))"
  by (simp add: get_comment_def Campsite_findById_def json_def campsite_not_found_def
      comment_not_found_def split: option.splits)

lemma writes_start_with_verifyUser:
  "m \<noteq> GET \<Longrightarrow> \<exists>ms. campsiteRouter p m = VerifyUser # ms"
  by (cases p; cases m) simp_all

text \<open>
  C10. No GET route of the campsite router runs token verification, and a GET request
  is never rejected with status 401; every POST, PUT and DELETE route starts with
  \<open>verifyUser\<close>, and when verification does not call \<^verbatim>\<open>next()\<close> the request ends
  with verification's own outcome and the store unchanged.
\<close>

theorem reads_open_writes_guarded:
  "VerifyUser \<notin> set (campsiteRouter p GET)
   \<and> \<not> rejected_with 401 (snd (campsites_request e p GET r d))
   \<and> (m \<noteq> GET \<longrightarrow>
        hd (campsiteRouter p m) = VerifyUser
        \<and> (fst (verifyUser e d (bearer r)) \<noteq> Next \<longrightarrow>
             campsites_request e p m r d = (d, fst (verifyUser e d (bearer r)))))"
proof -
  have a: "VerifyUser \<notin> set (campsiteRouter p GET)"
    by (cases p) simp_all
  have b: "\<not> rejected_with 401 (snd (campsites_request e p GET r d))"
    unfolding campsites_request_def
    by (cases p)
      (simp_all only: campsiteRouter.simps run_single_handler get_campsites_not_401
        get_campsite_not_401 get_comments_not_401 get_comment_not_401 not_False_eq_True)
  have c: "m \<noteq> GET \<longrightarrow>
        hd (campsiteRouter p m) = VerifyUser
        \<and> (fst (verifyUser e d (bearer r)) \<noteq> Next \<longrightarrow>
             campsites_request e p m r d = (d, fst (verifyUser e d (bearer r))))"
  proof
    assume "m \<noteq> GET"
    then obtain ms where ms: "campsiteRouter p m = VerifyUser # ms"
      using writes_start_with_verifyUser by blast
    then show "hd (campsiteRouter p m) = VerifyUser
        \<and> (fst (verifyUser e d (bearer r)) \<noteq> Next \<longrightarrow>
             campsites_request e p m r d = (d, fst (verifyUser e d (bearer r))))"
      using run_verifyUser_stops [of e d r ms] by (simp add: campsites_request_def)
  qed
  from a b c show ?thesis by blast
qed

theorem reads_open_writes_guarded_witness:
  "VerifyUser \<notin> set (campsiteRouter Comments GET)
   \<and> campsites_request env0 Comments GET req0 db0
       = (db0, json 200 (JComments [(remark, Some alice)]))
   \<and> hd (campsiteRouter Comments POST) = VerifyUser
   \<and> campsites_request env0 Comments POST req0 db0 = (db0, unauthorized)"
proof -
  have v: "fst (verifyUser env0 db0 (bearer req0)) = unauthorized"
    by (simp add: verifyUser_def req0_def)
  have n: "unauthorized \<noteq> Next"
    by (simp add: unauthorized_def end_with_def)
  have g: "campsites_request env0 Comments GET req0 db0
       = (db0, json 200 (JComments [(remark, Some alice)]))"
    by (simp add: campsites_request_def get_comments_def Campsite_findById_def env0_def
        req0_def db0_def site_def populate_comment_def remark_def alice_def json_def)
  from reads_open_writes_guarded [of Comments env0 req0 db0 POST] v n g
  show ?thesis by simp
qed

lemma verifyUser_without_token: "verifyUser e d None = (unauthorized, None)"
  by (simp add: verifyUser_def)

section \<open>Comments\<close>

text \<open>
  C8. A POST to a campsite's comments by an authenticated user, on an existing
  campsite and with the store's calls succeeding, stores one new comment whose author is
  the authenticated user's id, whatever author the request body names.
\<close>

theorem comment_author_is_requester:
  assumes "verifyUser e d (bearer r) = (Next, Some u)"
    and "find (\<lambda>x. cs_id x = campsiteId r) (campsites d) = Some cs"
    and "faults e 0 = None" and "faults e 1 = None"
    and "c = \<lparr>c_id = new_id e, c_rating = body r ''rating'', c_text = body r ''text'',
               c_author = Some (u_id u)\<rparr>"
    and "cs' = cs\<lparr>comments := comments cs @ [c]\<rparr>"
    and "d' = d\<lparr>campsites := map (\<lambda>x. if cs_id x = cs_id cs then cs' else x) (campsites d)\<rparr>"
  shows "campsites_request e Comments POST r d = (d', json 200 (JCampsite (Some cs')))"
proof -
  have "campsites_request e Comments POST r d = post_comments e (r\<lparr>req_user := Some u\<rparr>) d"
    using assms(1) by (simp only: campsites_request_def campsiteRouter.simps
        run_verifyUser_next run_single_handler)
  also have "\<dots> = (d', json 200 (JCampsite (Some cs')))"
    using assms(2-7)
    by (simp add: post_comments_def Campsite_findById_def Campsite_save_def cast_comment_def
        Let_def)
  finally show ?thesis .
qed

theorem comment_author_is_requester_witness:
  "verifyUser env0 db0 (Some (getToken (hmac env0) (secretKey env0) 50 ''u2''))
     = (Next, Some bob)
   \<and> campsites_request env0 Comments POST
       (req0\<lparr>bearer := Some (getToken (hmac env0) (secretKey env0) 50 ''u2''),
             body := [''text'' \<mapsto> JStr ''Hi'', ''author'' \<mapsto> JStr ''u1'']\<rparr>) db0
     = (db0\<lparr>campsites := [site\<lparr>comments := [remark,
            \<lparr>c_id = ''n1'', c_rating = None, c_text = Some (JStr ''Hi''),
             c_author = Some ''u2''\<rparr>]\<rparr>]\<rparr>,
        json 200 (JCampsite (Some (site\<lparr>comments := [remark,
            \<lparr>c_id = ''n1'', c_rating = None, c_text = Some (JStr ''Hi''),
             c_author = Some ''u2''\<rparr>]\<rparr>))))"
proof -
  have v: "verifyUser env0 db0 (Some (getToken (hmac env0) (secretKey env0) 50 ''u2''))
            = (Next, Some bob)"
    by (simp add: verifyUser_def jwt_verify_def getToken_def jwt_sign_def env0_def
        jwtPassport_def User_findOne_def db0_def alice_def bob_def Let_def)
  have f: "find (\<lambda>x. cs_id x = ''c1'') (campsites db0) = Some site"
    by (simp add: db0_def site_def)
  from comment_author_is_requester
    [of env0 db0 "req0\<lparr>bearer := Some (getToken (hmac env0) (secretKey env0) 50 ''u2''),
             body := [''text'' \<mapsto> JStr ''Hi'', ''author'' \<mapsto> JStr ''u1'']\<rparr>" bob site,
     OF _ _ _ _ refl refl refl] v f
  show ?thesis
    by (simp add: req0_def env0_def db0_def bob_def site_def)
qed

lemma post_comments_new_by_requester:
  assumes "req_user r = Some u" and "post_comments e r d = (d', out)"
    and "cs' \<in> set (campsites d')" and "c \<in> set (comments cs')"
  shows "c_author c = Some (u_id u) \<or> (\<exists>cs\<in>set (campsites d). c \<in> set (comments cs))"
proof (cases "d' = d")
  case True
  with assms(3,4) show ?thesis by blast
next
  case False
  with assms(1,2) obtain cs where
    f: "find (\<lambda>x. cs_id x = campsiteId r) (campsites d) = Some cs"
    and d': "d' = d\<lparr>campsites := map (\<lambda>x. if cs_id x = cs_id cs
         then cs\<lparr>comments := comments cs @
                [cast_comment (new_id e) ((body r)(''author'' \<mapsto> JOid (u_id u)))]\<rparr>
         else x) (campsites d)\<rparr>"
    by (auto simp: post_comments_def Campsite_findById_def Campsite_save_def Let_def
        split: option.splits sum.splits)
  from f have "cs \<in> set (campsites d)"
    by (induction "campsites d") (auto simp: find_Some_iff in_set_conv_nth)
  with assms(3,4) d' show ?thesis
    by (auto simp: cast_comment_def split: if_splits)
qed

text \<open>
  C1. A DELETE of an existing comment of an existing campsite by a user who is neither
  the comment's author nor an admin is not rejected with status 403: the handler passes
  on the 404 error "Comment ... not found". (The 403 error sits in the inner else branch,
  which the owner-or-admin test has already excluded.)
\<close>

theorem delete_comment_stranger_not_found:
  assumes "faults e 0 = None"
    and "find (\<lambda>x. cs_id x = campsiteId r) (campsites d) = Some cs"
    and "comments_id (comments cs) (commentId r) = Some c"
    and "c_author c = Some a"
    and "req_user r = Some u" and "u_id u \<noteq> a" and "\<not> admin u"
  shows "delete_comment e r d = (d, NextErr (HttpError 404 (''Comment '' @ commentId r @ '' not found'')))"
  using assms
  by (simp add: delete_comment_def Campsite_findById_def comment_not_found_def)

theorem delete_comment_stranger_not_found_witness:
  "delete_comment env0 (req0\<lparr>req_user := Some bob\<rparr>) db0
     = (db0, NextErr (HttpError 404 ''Comment k1 not found''))
   \<and> campsites_request env0 CommentById DELETE
        (req0\<lparr>bearer := Some (getToken (hmac env0) (secretKey env0) 50 ''u2'')\<rparr>) db0
     = (db0, NextErr (HttpError 404 ''Comment k1 not found''))"
proof -
  have h: "delete_comment env0 (req0\<lparr>req_user := Some bob\<rparr>) db0
     = (db0, NextErr (HttpError 404 ''Comment k1 not found''))"
    using delete_comment_stranger_not_found
      [of env0 "req0\<lparr>req_user := Some bob\<rparr>" db0 site remark "''u1''" bob]
    by (simp add: env0_def req0_def db0_def site_def remark_def bob_def comments_id_def)
  have v: "verifyUser env0 db0 (Some (getToken (hmac env0) (secretKey env0) 50 ''u2''))
            = (Next, Some bob)"
    by (simp add: verifyUser_def jwt_verify_def getToken_def jwt_sign_def env0_def
        jwtPassport_def User_findOne_def db0_def alice_def bob_def Let_def)
  have "campsites_request env0 CommentById DELETE
        (req0\<lparr>bearer := Some (getToken (hmac env0) (secretKey env0) 50 ''u2'')\<rparr>) db0
     = delete_comment env0 (req0\<lparr>bearer := Some (getToken (hmac env0) (secretKey env0) 50 ''u2''),
          req_user := Some bob\<rparr>) db0"
    unfolding campsites_request_def campsiteRouter.simps
    by (subst run_verifyUser_next [where who = "Some bob"])
      (simp_all add: v run_single_handler del: run.simps)
  also have "\<dots> = (db0, NextErr (HttpError 404 ''Comment k1 not found''))"
    using delete_comment_stranger_not_found
      [of env0 "req0\<lparr>bearer := Some (getToken (hmac env0) (secretKey env0) 50 ''u2''),
          req_user := Some bob\<rparr>" db0 site remark "''u1''" bob]
    by (simp add: env0_def req0_def db0_def site_def remark_def bob_def comments_id_def)
  finally show ?thesis using h by simp
qed

lemma put_comment_success_only_author:
  assumes "put_comment e r d = (d', Respond rs)"
  shows "\<exists>cs c u. find (\<lambda>x. cs_id x = campsiteId r) (campsites d) = Some cs
           \<and> comments_id (comments cs) (commentId r) = Some c
           \<and> req_user r = Some u \<and> c_author c = Some (u_id u)"
  using assms
  by (auto simp: put_comment_def Campsite_findById_def Campsite_save_def Let_def json_def
      split: option.splits sum.splits if_splits)

lemma put_comment_not_author_forbidden:
  assumes "faults e 0 = None"
    and "find (\<lambda>x. cs_id x = campsiteId r) (campsites d) = Some cs"
    and "comments_id (comments cs) (commentId r) = Some c"
    and "c_author c = Some a"
    and "req_user r = Some u" and "u_id u \<noteq> a"
  shows "put_comment e r d = (d, NextErr (HttpError 403 ''You are not authorized to delete this comment!''))"
  using assms
  by (simp add: put_comment_def Campsite_findById_def not_authorized_comment_def)

lemma delete_comment_owner_or_admin:
  assumes "faults e 0 = None" and "faults e 1 = None"
    and "find (\<lambda>x. cs_id x = campsiteId r) (campsites d) = Some cs"
    and "comments_id (comments cs) (commentId r) = Some c"
    and "c_author c = Some a"
    and "req_user r = Some u" and "u_id u = a \<or> admin u"
    and "cs' = cs\<lparr>comments := filter (\<lambda>x. c_id x \<noteq> commentId r) (comments cs)\<rparr>"
  shows "delete_comment e r d =
           (d\<lparr>campsites := map (\<lambda>x. if cs_id x = cs_id cs then cs' else x) (campsites d)\<rparr>,
            json 200 (JCampsite (Some cs')))"
  using assms
  by (auto simp add: delete_comment_def Campsite_findById_def Campsite_save_def Let_def)

section \<open>Favorites\<close>

lemma push_missing_distinct: "distinct cs \<Longrightarrow> distinct (push_missing cs xs)"
  by (induction xs arbitrary: cs) auto

lemma push_missing_set: "set (push_missing cs xs) = set cs \<union> set xs"
  by (induction xs arbitrary: cs) auto

text \<open>
  C9. When the user has no favorites document yet, a POST to the favorites list stores
  the request body's campsite ids as they are, without a membership test: a body that
  names a campsite twice yields a document that lists it twice.
\<close>

theorem favorites_post_create_keeps_body:
  assumes "find (\<lambda>f. f_user f = u_id u) (favorites d) = None"
    and "faults e 0 = None" and "faults e 1 = None"
    and "fv = \<lparr>f_id = new_id e, f_user = u_id u, f_campsites = b\<rparr>"
  shows "favorites_post e u b d = (d\<lparr>favorites := favorites d @ [fv]\<rparr>, json 200 (JFavorite fv))"
  using assms
  by (simp add: favorites_post_def Favorite_findOne_def Favorite_create_def Let_def)

theorem favorites_post_create_keeps_body_witness:
  "favorites_post env0 alice [''c1'', ''c1''] db0
     = (db0\<lparr>favorites := [\<lparr>f_id = ''n1'', f_user = ''u1'', f_campsites = [''c1'', ''c1'']\<rparr>]\<rparr>,
        json 200 (JFavorite \<lparr>f_id = ''n1'', f_user = ''u1'', f_campsites = [''c1'', ''c1'']\<rparr>))
   \<and> \<not> distinct (f_campsites \<lparr>f_id = ''n1'', f_user = ''u1'', f_campsites = [''c1'', ''c1'']\<rparr>)"
  using favorites_post_create_keeps_body [of alice db0 env0 _ "[''c1'', ''c1'']", OF _ _ _ refl]
  by (simp add: db0_def env0_def alice_def)

lemma favorite_post_distinct:
  assumes "favorite_post e u cid d = (d', out)"
    and "\<forall>f\<in>set (favorites d). distinct (f_campsites f)"
  shows "\<forall>f\<in>set (favorites d'). distinct (f_campsites f)"
proof (cases "find (\<lambda>f. f_user f = u_id u) (favorites d)")
  case None
  with assms show ?thesis
    by (auto simp: favorite_post_def Favorite_findOne_def Favorite_create_def Let_def
        split: option.splits)
next
  case (Some fv)
  then have "distinct (f_campsites fv)"
    using assms(2) find_Some_mem by fastforce
  with Some assms show ?thesis
    by (auto simp: favorite_post_def Favorite_findOne_def Favorite_save_def Let_def
        split: option.splits if_splits)
qed

lemma favorites_post_existing_distinct:
  assumes "favorites_post e u b d = (d', out)"
    and "find (\<lambda>f. f_user f = u_id u) (favorites d) = Some fv"
    and "\<forall>f\<in>set (favorites d). distinct (f_campsites f)"
  shows "\<forall>f\<in>set (favorites d'). distinct (f_campsites f)"
proof -
  have "distinct (f_campsites fv)"
    using assms(2,3) find_Some_mem by fastforce
  then have "distinct (push_missing (f_campsites fv) b)"
    by (rule push_missing_distinct)
  with assms show ?thesis
    by (auto simp: favorites_post_def Favorite_findOne_def Favorite_save_def Let_def
        split: option.splits if_splits)
qed

end
